theory Spec2Isabelle
  imports Complex_Main
begin

section \<open>ITKBoneEnhancement: multi-scale Hessian enhancement\<close>

text \<open>
  A shallow embedding of the BoneEnhancement module's multi-scale driver
  (\<^verbatim>\<open>itkMultiScaleHessianEnhancementImageFilter.hxx\<close>), of the masked evaluation loop of
  \<^verbatim>\<open>itkEigenToMeasureImageFilter.hxx\<close> and of the Descoteaux parameter estimator declared in
  \<^verbatim>\<open>itkDescoteauxEigenToScalarParameterEstimationImageFilter.h\<close>.

  Conventions of the embedding.
  \<^item> The C++ floating-point types (\<^verbatim>\<open>double\<close>, \<^verbatim>\<open>float\<close>) are read as the real numbers:
    rounding, overflow and NaN are not represented.
  \<^item> The unsigned size type \<^verbatim>\<open>SigmaStepsType\<close> is \<^typ>\<open>nat\<close>; the one subtraction on it
    (\<^verbatim>\<open>NumberOfSigmaSteps - 1\<close>) is executed only when the count is at least 2.
  \<^item> A thrown \<^verbatim>\<open>itk::ExceptionObject\<close> is the value \<open>Inl (ExceptionObject description)\<close> of
    a result \<open>error + 'a\<close>.
  \<^item> Image regions are lists of indices in iteration order; a region split among worker
    threads is a list of such lists, processed one after the other.
  \<^item> The output images the multi-scale driver holds through smart pointers are objects in a
    store: a pointer names the output object of a filter, and an update of the filter
    overwrites what the object holds.
\<close>

subsection \<open>Errors\<close>

text \<open>
  Every \<^verbatim>\<open>throw\<close> and \<^verbatim>\<open>itkExceptionMacro\<close> of the sources raises an
  \<^verbatim>\<open>itk::ExceptionObject\<close> carrying a description. \<open>InvalidParameter\<close> is the failure of the
  tensor-field stage, whose code is not part of the sources at hand (see below).
\<close>

datatype error = ExceptionObject string | InvalidParameter

text \<open>
  The two descriptions raised by the precondition checks at the head of
  \<^verbatim>\<open>MultiScaleHessianEnhancementImageFilter::GenerateData\<close>; the array size printed at the end
  of the second one is always 0 there, the size being unsigned and less than 1.
\<close>

definition ConfigurationError :: "error \<Rightarrow> bool" where
  "ConfigurationError e =
     (e = ExceptionObject ''EigenToScalarImageFilter is not present''
      \<or> e = ExceptionObject ''SigmaArray must have at least one sigma value. Given array of size 0'')"

subsection \<open>Scale schedule: \<^verbatim>\<open>GenerateSigmaArray\<close>\<close>

text \<open>
  \<^verbatim>\<open>SigmaStepMethodEnum\<close> has the two enumerators the \<^verbatim>\<open>switch\<close> names;
  \<open>UnknownSigmaSteps\<close> stands for any other value of the enumeration type, which reaches the
  \<^verbatim>\<open>default\<close> label.
\<close>

datatype SigmaStepMethodEnum = EquispacedSigmaSteps | LogarithmicSigmaSteps | UnknownSigmaSteps

text \<open>
  The \<^verbatim>\<open>for\<close> loop of \<^verbatim>\<open>GenerateSigmaArray\<close> (lines 197 to 220), from \<open>scaleLevel\<close> on.
\<close>

function sigma_loop ::
  "real \<Rightarrow> real \<Rightarrow> nat \<Rightarrow> SigmaStepMethodEnum \<Rightarrow> nat \<Rightarrow> real list \<Rightarrow> error + real list" where
  "sigma_loop SigmaMinimum SigmaMaximum NumberOfSigmaSteps SigmaStepMethod scaleLevel sigmaArray =
     (if scaleLevel < length sigmaArray then
        (case SigmaStepMethod of
           EquispacedSigmaSteps \<Rightarrow>
             (let stepSize = max (1 / 10 ^ 10)
                               ((SigmaMaximum - SigmaMinimum) / real (NumberOfSigmaSteps - 1));
                  thisSigma = SigmaMinimum + stepSize * real scaleLevel
              in sigma_loop SigmaMinimum SigmaMaximum NumberOfSigmaSteps SigmaStepMethod
                   (Suc scaleLevel) (sigmaArray[scaleLevel := thisSigma]))
         | LogarithmicSigmaSteps \<Rightarrow>
             (let stepSize = max (1 / 10 ^ 10)
                               ((ln SigmaMaximum - ln SigmaMinimum) / real (NumberOfSigmaSteps - 1));
                  thisSigma = exp (ln SigmaMinimum + stepSize * real scaleLevel)
              in sigma_loop SigmaMinimum SigmaMaximum NumberOfSigmaSteps SigmaStepMethod
                   (Suc scaleLevel) (sigmaArray[scaleLevel := thisSigma]))
         | UnknownSigmaSteps \<Rightarrow>
             Inl (ExceptionObject ''Requested sigma step method does not exist''))
      else Inr sigmaArray)"
  by pat_completeness auto
termination
  by (relation "measure (\<lambda>(lo, hi, n, m, scaleLevel, sigmaArray). length sigmaArray - scaleLevel)")
     auto

declare sigma_loop.simps [simp del]

text \<open>
  \<^verbatim>\<open>GenerateSigmaArray\<close> (lines 167 to 223): the count check, the swap of the bounds, the
  coercion of the count when the bounds are equal, the array of that size with the minimum at
  index 0 (\<^verbatim>\<open>SetSize\<close> leaves the other elements uninitialised; they are 0 here and the loop
  overwrites each), then the loop from index 1.
\<close>

definition GenerateSigmaArray ::
  "real \<Rightarrow> real \<Rightarrow> nat \<Rightarrow> SigmaStepMethodEnum \<Rightarrow> error + real list" where
  "GenerateSigmaArray SigmaMinimum SigmaMaximum NumberOfSigmaSteps SigmaStepMethod =
     (if NumberOfSigmaSteps < 1
      then Inl (ExceptionObject ''Number of sigma values requested is less than 1'')
      else
        let (SigmaMinimum', SigmaMaximum') =
              (if SigmaMinimum > SigmaMaximum then (SigmaMaximum, SigmaMinimum)
               else (SigmaMinimum, SigmaMaximum));
            NumberOfSigmaSteps' =
              (if SigmaMinimum' = SigmaMaximum' then 1 else NumberOfSigmaSteps);
            sigmaArray = (replicate NumberOfSigmaSteps' 0)[0 := SigmaMinimum']
        in sigma_loop SigmaMinimum' SigmaMaximum' NumberOfSigmaSteps' SigmaStepMethod 1 sigmaArray)"

text \<open>The two step formulas of the loop body, as functions of the index.\<close>

definition equispaced_sigma :: "real \<Rightarrow> real \<Rightarrow> nat \<Rightarrow> nat \<Rightarrow> real" where
  "equispaced_sigma lo hi n i = lo + max (1 / 10 ^ 10) ((hi - lo) / real (n - 1)) * real i"

definition logarithmic_sigma :: "real \<Rightarrow> real \<Rightarrow> nat \<Rightarrow> nat \<Rightarrow> real" where
  "logarithmic_sigma lo hi n i =
     exp (ln lo + max (1 / 10 ^ 10) ((ln hi - ln lo) / real (n - 1)) * real i)"

definition sigma_at :: "SigmaStepMethodEnum \<Rightarrow> real \<Rightarrow> real \<Rightarrow> nat \<Rightarrow> nat \<Rightarrow> real" where
  "sigma_at m lo hi n i =
     (case m of EquispacedSigmaSteps \<Rightarrow> equispaced_sigma lo hi n i
      | _ \<Rightarrow> logarithmic_sigma lo hi n i)"

subsection \<open>Images\<close>

text \<open>
  The module is instantiated for dimension 3: an index is a triple of integers, a physical
  point a triple of reals, and a pixel of an eigenvalue image a \<^verbatim>\<open>FixedArray\<close> of three
  reals. A scalar output image is the map from the indices of its region to their values.
\<close>

type_synonym IndexType = "int \<times> int \<times> int"
type_synonym PointType = "real \<times> real \<times> real"
type_synonym EigenValueArrayType = "real \<times> real \<times> real"
type_synonym OutputImageType = "IndexType \<rightharpoonup> real"

subsection \<open>Masked evaluation: \<^verbatim>\<open>EigenToMeasureImageFilter::GenerateData\<close>\<close>

text \<open>
  The input image as the loop reads it: the pixel at an index (\<^verbatim>\<open>inputIt.Get()\<close>) and the
  image's own \<^verbatim>\<open>TransformIndexToPhysicalPoint\<close>. The mask is a spatial object, asked
  \<^verbatim>\<open>IsInsideInObjectSpace\<close> at a point; \<^verbatim>\<open>maskPointer\<close> is \<open>None\<close> for the null pointer.
  Both functions belong to the toolkit and are parameters here.
\<close>

record InputImageType =
  Get :: "IndexType \<Rightarrow> EigenValueArrayType"
  TransformIndexToPhysicalPoint :: "IndexType \<Rightarrow> PointType"

record MaskSpatialObjectType =
  IsInsideInObjectSpace :: "PointType \<Rightarrow> bool"

text \<open>
  What a run of the filter writes: the output buffer and, next to it, the indices at which
  \<^verbatim>\<open>ProcessPixel\<close> was called, in call order. The second field has no counterpart in the
  C++ object; it records the calls so that "not evaluated" can be stated.
\<close>

record EigenToMeasureRun =
  Output :: OutputImageType
  ProcessPixelCalls :: "IndexType list"

definition AllocateOutputs :: EigenToMeasureRun where
  "AllocateOutputs = \<lparr>Output = Map.empty, ProcessPixelCalls = []\<rparr>"

text \<open>
  The \<^verbatim>\<open>while (!inputIt.IsAtEnd())\<close> loop of the region lambda (lines 59 to 73);
  \<^verbatim>\<open>ProcessPixel\<close> is the virtual method of the concrete measure filter.
\<close>

fun region_loop ::
  "InputImageType \<Rightarrow> MaskSpatialObjectType option \<Rightarrow> (EigenValueArrayType \<Rightarrow> real) \<Rightarrow>
   IndexType list \<Rightarrow> EigenToMeasureRun \<Rightarrow> EigenToMeasureRun" where
  "region_loop inputPtr maskPointer ProcessPixel [] run = run"
| "region_loop inputPtr maskPointer ProcessPixel (index # region) run =
     (let point = TransformIndexToPhysicalPoint inputPtr index in
      if (case maskPointer of None \<Rightarrow> True
          | Some maskObject \<Rightarrow> IsInsideInObjectSpace maskObject point)
      then region_loop inputPtr maskPointer ProcessPixel region
             (run\<lparr>Output := (Output run)(index \<mapsto> ProcessPixel (Get inputPtr index)),
                  ProcessPixelCalls := ProcessPixelCalls run @ [index]\<rparr>)
      else region_loop inputPtr maskPointer ProcessPixel region
             (run\<lparr>Output := (Output run)(index \<mapsto> 0)\<rparr>))"

text \<open>
  \<^verbatim>\<open>GenerateData\<close> (lines 28 to 78): the outputs are allocated, and the requested region,
  split by \<^verbatim>\<open>ParallelizeImageRegion\<close> into \<open>regions\<close>, is walked piece by piece.
\<close>

definition EigenToMeasure_GenerateData ::
  "InputImageType \<Rightarrow> MaskSpatialObjectType option \<Rightarrow> (EigenValueArrayType \<Rightarrow> real) \<Rightarrow>
   IndexType list list \<Rightarrow> EigenToMeasureRun" where
  "EigenToMeasure_GenerateData inputPtr maskPointer ProcessPixel regions =
     foldl (\<lambda>run region. region_loop inputPtr maskPointer ProcessPixel region run)
       AllocateOutputs regions"

text \<open>The \<^verbatim>\<open>else\<close> branch of the loop is taken at an index.\<close>

definition outside_mask ::
  "InputImageType \<Rightarrow> MaskSpatialObjectType option \<Rightarrow> IndexType \<Rightarrow> bool" where
  "outside_mask inputPtr maskPointer index =
     (case maskPointer of None \<Rightarrow> False
      | Some maskObject \<Rightarrow>
          \<not> IsInsideInObjectSpace maskObject (TransformIndexToPhysicalPoint inputPtr index))"

definition expected_pixel ::
  "InputImageType \<Rightarrow> MaskSpatialObjectType option \<Rightarrow> (EigenValueArrayType \<Rightarrow> real) \<Rightarrow>
   IndexType \<Rightarrow> real" where
  "expected_pixel inputPtr maskPointer ProcessPixel index =
     (if outside_mask inputPtr maskPointer index then 0 else ProcessPixel (Get inputPtr index))"

subsection \<open>Descoteaux parameter estimation\<close>

text \<open>
  The filter object declared in the header: the two parameters, the per-thread array
  \<^verbatim>\<open>m_MaxFrobeniusNorm\<close> and the three decorated outputs, each holding a real. The label type
  of the mask image is the type parameter.
\<close>

record 'l DescoteauxEigenToScalarParameterEstimationImageFilter =
  m_FrobeniusNormWeight :: real
  m_BackgroundValue :: 'l
  m_MaxFrobeniusNorm :: "real list"
  AlphaOutput :: real
  BetaOutput :: real
  COutput :: real

text \<open>The getters of the header (lines 112 to 124) read the decorated outputs.\<close>

definition GetAlpha :: "'l DescoteauxEigenToScalarParameterEstimationImageFilter \<Rightarrow> real" where
  "GetAlpha this = AlphaOutput this"

definition GetBeta :: "'l DescoteauxEigenToScalarParameterEstimationImageFilter \<Rightarrow> real" where
  "GetBeta this = BetaOutput this"

definition GetC :: "'l DescoteauxEigenToScalarParameterEstimationImageFilter \<Rightarrow> real" where
  "GetC this = COutput this"

text \<open>
  Modelled from the spec: the constructor, whose body (the \<^verbatim>\<open>.hxx\<close> file the header includes)
  is not among the sources.
  The Frobenius norm weight defaults to 0.5 and the three outputs hold 0.5, the defaults the
  module's test reads from a fresh object (test lines 126 to 135). The default background
  label is not documented and is a parameter.
\<close>

definition Descoteaux_New :: "'l \<Rightarrow> 'l DescoteauxEigenToScalarParameterEstimationImageFilter" where
  "Descoteaux_New background =
     \<lparr>m_FrobeniusNormWeight = 1 / 2, m_BackgroundValue = background, m_MaxFrobeniusNorm = [],
      AlphaOutput = 1 / 2, BetaOutput = 1 / 2, COutput = 1 / 2\<rparr>"

text \<open>
  Modelled from the spec: \<^verbatim>\<open>CalculateFrobeniusNorm\<close>, declared in the header (line 157), body
  not among the sources: the square root of the sum of the squares of the three eigenvalues.
\<close>

definition CalculateFrobeniusNorm :: "EigenValueArrayType \<Rightarrow> real" where
  "CalculateFrobeniusNorm pixel =
     (case pixel of (lambda1, lambda2, lambda3) \<Rightarrow> sqrt (lambda1\<^sup>2 + lambda2\<^sup>2 + lambda3\<^sup>2))"

text \<open>
  Modelled from the spec: which voxels take part in the estimation. A mask image is a map
  from the indices of its own region to labels. Without a mask every voxel is foreground;
  with one, the voxels of the mask's region whose label differs from the background value
  (the header: parameters are estimated only in the intersection of the two regions).
\<close>

definition is_foreground :: "'l \<Rightarrow> (IndexType \<rightharpoonup> 'l) option \<Rightarrow> IndexType \<Rightarrow> bool" where
  "is_foreground background maskPointer index =
     (case maskPointer of None \<Rightarrow> True
      | Some maskImage \<Rightarrow>
          (case maskImage index of None \<Rightarrow> False | Some label \<Rightarrow> label \<noteq> background))"

definition foreground_voxels ::
  "'l \<Rightarrow> (IndexType \<rightharpoonup> 'l) option \<Rightarrow> IndexType list \<Rightarrow> IndexType list" where
  "foreground_voxels background maskPointer region =
     filter (is_foreground background maskPointer) region"

definition foreground_norms ::
  "'l \<Rightarrow> (IndexType \<Rightarrow> EigenValueArrayType) \<Rightarrow> (IndexType \<rightharpoonup> 'l) option \<Rightarrow> IndexType list \<Rightarrow>
   real set" where
  "foreground_norms background inputPtr maskPointer region =
     set (map (\<lambda>index. CalculateFrobeniusNorm (inputPtr index))
            (foreground_voxels background maskPointer region))"

text \<open>
  Modelled from the spec: the scan of one thread's region, keeping the running maximum of
  the norms of its foreground voxels.
\<close>

fun scan_region ::
  "'l \<Rightarrow> (IndexType \<Rightarrow> EigenValueArrayType) \<Rightarrow> (IndexType \<rightharpoonup> 'l) option \<Rightarrow>
   IndexType list \<Rightarrow> real \<Rightarrow> real" where
  "scan_region background inputPtr maskPointer [] maxNorm = maxNorm"
| "scan_region background inputPtr maskPointer (index # region) maxNorm =
     (if is_foreground background maskPointer index
      then scan_region background inputPtr maskPointer region
             (max maxNorm (CalculateFrobeniusNorm (inputPtr index)))
      else scan_region background inputPtr maskPointer region maxNorm)"

text \<open>
  Modelled from the spec: the three phases the header declares (lines 139 to 148), bodies not
  among the sources. Before the threads run, one accumulator per thread is set to 0; each
  thread scans its region into its own accumulator; afterwards the accumulators are merged by
  maximum, alpha and beta are set to 0.5 and c to the weight times the merged maximum.
\<close>

definition BeforeThreadedGenerateData ::
  "'l DescoteauxEigenToScalarParameterEstimationImageFilter \<Rightarrow> nat \<Rightarrow>
   'l DescoteauxEigenToScalarParameterEstimationImageFilter" where
  "BeforeThreadedGenerateData this numberOfThreads =
     this\<lparr>m_MaxFrobeniusNorm := replicate numberOfThreads 0\<rparr>"

definition ThreadedGenerateData ::
  "'l DescoteauxEigenToScalarParameterEstimationImageFilter \<Rightarrow>
   (IndexType \<Rightarrow> EigenValueArrayType) \<Rightarrow> (IndexType \<rightharpoonup> 'l) option \<Rightarrow> IndexType list \<Rightarrow> nat \<Rightarrow>
   'l DescoteauxEigenToScalarParameterEstimationImageFilter" where
  "ThreadedGenerateData this inputPtr maskPointer outputRegionForThread threadId =
     this\<lparr>m_MaxFrobeniusNorm := (m_MaxFrobeniusNorm this)
       [threadId := scan_region (m_BackgroundValue this) inputPtr maskPointer
                      outputRegionForThread (m_MaxFrobeniusNorm this ! threadId)]\<rparr>"

fun run_threads ::
  "'l DescoteauxEigenToScalarParameterEstimationImageFilter \<Rightarrow>
   (IndexType \<Rightarrow> EigenValueArrayType) \<Rightarrow> (IndexType \<rightharpoonup> 'l) option \<Rightarrow> IndexType list list \<Rightarrow> nat \<Rightarrow>
   'l DescoteauxEigenToScalarParameterEstimationImageFilter" where
  "run_threads this inputPtr maskPointer [] threadId = this"
| "run_threads this inputPtr maskPointer (region # regions) threadId =
     run_threads (ThreadedGenerateData this inputPtr maskPointer region threadId)
       inputPtr maskPointer regions (Suc threadId)"

definition AfterThreadedGenerateData ::
  "'l DescoteauxEigenToScalarParameterEstimationImageFilter \<Rightarrow>
   'l DescoteauxEigenToScalarParameterEstimationImageFilter" where
  "AfterThreadedGenerateData this =
     this\<lparr>AlphaOutput := 1 / 2, BetaOutput := 1 / 2,
          COutput := m_FrobeniusNormWeight this * fold max (m_MaxFrobeniusNorm this) 0\<rparr>"

text \<open>
  Modelled from the spec: one run of the estimator on an eigenvalue image, an optional mask
  image and the image region as split among the threads (one piece per thread).
\<close>

definition Descoteaux_Update ::
  "'l DescoteauxEigenToScalarParameterEstimationImageFilter \<Rightarrow>
   (IndexType \<Rightarrow> EigenValueArrayType) \<Rightarrow> (IndexType \<rightharpoonup> 'l) option \<Rightarrow> IndexType list list \<Rightarrow>
   'l DescoteauxEigenToScalarParameterEstimationImageFilter" where
  "Descoteaux_Update this inputPtr maskPointer regions =
     AfterThreadedGenerateData
       (run_threads (BeforeThreadedGenerateData this (length regions))
          inputPtr maskPointer regions 0)"

subsection \<open>The multi-scale driver\<close>

text \<open>
  The eigenvalue order as the measure filter declares it and as the eigen-analysis functor
  takes it. \<open>OtherOrder\<close> stands for a value outside the three enumerators, which reaches the
  \<^verbatim>\<open>default\<close> label of \<^verbatim>\<open>ConvertType\<close> (lines 241 to 257); the number printed after the
  description is left out.
\<close>

datatype ExternalEigenValueOrderType = OrderByValue | OrderByMagnitude | DoNotOrder | OtherOrder

datatype InternalEigenValueOrderType =
  Functor_OrderByValue | Functor_OrderByMagnitude | Functor_DoNotOrder

definition ConvertType :: "ExternalEigenValueOrderType \<Rightarrow> error + InternalEigenValueOrderType" where
  "ConvertType order =
     (case order of
        OrderByValue \<Rightarrow> Inr Functor_OrderByValue
      | OrderByMagnitude \<Rightarrow> Inr Functor_OrderByMagnitude
      | DoNotOrder \<Rightarrow> Inr Functor_DoNotOrder
      | OtherOrder \<Rightarrow> Inl (ExceptionObject ''Trying to convert bad order''))"

text \<open>
  The measure filter the user provides, as the driver uses it: its declared eigenvalue order
  and its \<^verbatim>\<open>Update\<close>, from an eigenvalue image (type \<open>'e\<close>) to a response image or an
  exception. Any parameter estimation of the concrete filter happens inside that update.
\<close>

record 'e EigenToScalarImageFilterType =
  GetEigenValueOrder :: ExternalEigenValueOrderType
  EigenToScalar_Update :: "'e \<Rightarrow> error + OutputImageType"

text \<open>
  The settings of the Hessian filter the driver touches: \<^verbatim>\<open>SetNormalizeAcrossScale\<close>,
  \<^verbatim>\<open>SetSigma\<close> and \<^verbatim>\<open>SetInput\<close>, over an input image of type \<open>'g\<close>.
\<close>

record 'g HessianFilterType =
  m_NormalizeAcrossScale :: bool
  m_Sigma :: real
  m_Input :: 'g

text \<open>
  Modelled from the spec: the update of the Hessian filter \<^verbatim>\<open>m_HessianFilter\<close> (the
  tensor-field stage), whose code is not among the sources. The spec: the scale must
  be positive, and the stage fails with an InvalidParameter error otherwise; it produces the
  tensor field and has no other effect. The stage is given in state-passing form: it returns
  the filter, with its input image, as it leaves it, next to the tensor field (type \<open>'t\<close>).
  The smoothed, scale-normalised second derivatives themselves are the parameter
  \<open>SecondDerivatives\<close>.
\<close>

definition HessianFilter_Update ::
  "(bool \<Rightarrow> real \<Rightarrow> 'g \<Rightarrow> 't) \<Rightarrow> 'g HessianFilterType \<Rightarrow> error + ('g HessianFilterType \<times> 't)" where
  "HessianFilter_Update SecondDerivatives hessianFilter =
     (if m_Sigma hessianFilter > 0
      then Inr (hessianFilter,
                SecondDerivatives (m_NormalizeAcrossScale hessianFilter) (m_Sigma hessianFilter)
                  (m_Input hessianFilter))
      else Inl InvalidParameter)"

text \<open>
  Modelled from the spec: the functor of the filter \<^verbatim>\<open>m_MaximumAbsoluteValueFilter\<close>,
  whose code is not among the sources: \<^verbatim>\<open>abs(a) >= abs(b) ? a : b\<close>; and the binary image
  filter that applies it at every voxel of its two inputs.
\<close>

definition MaximumAbsoluteValue :: "real \<Rightarrow> real \<Rightarrow> real" where
  "MaximumAbsoluteValue a b = (if \<bar>a\<bar> \<ge> \<bar>b\<bar> then a else b)"

definition MaximumAbsoluteValueImageFilter ::
  "OutputImageType \<Rightarrow> OutputImageType \<Rightarrow> OutputImageType" where
  "MaximumAbsoluteValueImageFilter input1 input2 =
     (\<lambda>index. case input1 index of None \<Rightarrow> None
        | Some a \<Rightarrow> (case input2 index of None \<Rightarrow> None
            | Some b \<Rightarrow> Some (MaximumAbsoluteValue a b)))"

text \<open>
  The driver object: the sigma array, the three internal filters (each as the function its
  update computes), the measure filter (\<open>None\<close> for \<^verbatim>\<open>nullptr\<close>) and the input image.
  The eigen-analysis filter is the toolkit's and stays a parameter. Progress reporting is
  left out.
\<close>

record ('g, 't, 'e) MultiScaleHessianEnhancementImageFilter =
  m_SigmaArray :: "real list"
  m_HessianFilter :: "'g HessianFilterType \<Rightarrow> error + ('g HessianFilterType \<times> 't)"
  m_EigenAnalysisFilter :: "InternalEigenValueOrderType \<Rightarrow> 't \<Rightarrow> error + 'e"
  m_MaximumAbsoluteValueFilter :: "OutputImageType \<Rightarrow> OutputImageType \<Rightarrow> OutputImageType"
  m_EigenToScalarImageFilter :: "'e EigenToScalarImageFilterType option"
  GetInput :: 'g

text \<open>
  The constructor (lines 28 to 43): an empty sigma array, the three internal filters
  instantiated, no measure filter. The input image is set with it.
\<close>

definition MultiScale_New ::
  "(bool \<Rightarrow> real \<Rightarrow> 'g \<Rightarrow> 't) \<Rightarrow> (InternalEigenValueOrderType \<Rightarrow> 't \<Rightarrow> error + 'e) \<Rightarrow> 'g \<Rightarrow>
   ('g, 't, 'e) MultiScaleHessianEnhancementImageFilter" where
  "MultiScale_New SecondDerivatives EigenAnalysis inputImage =
     \<lparr>m_SigmaArray = [],
      m_HessianFilter = HessianFilter_Update SecondDerivatives,
      m_EigenAnalysisFilter = EigenAnalysis,
      m_MaximumAbsoluteValueFilter = MaximumAbsoluteValueImageFilter,
      m_EigenToScalarImageFilter = None,
      GetInput = inputImage\<rparr>"

text \<open>
  The output images of the driver are handled through pointers
  (\<^verbatim>\<open>typename TOutputImage::Pointer\<close>). Every pointer the driver holds comes from one of two
  expressions, \<^verbatim>\<open>m_EigenToScalarImageFilter->GetOutput()\<close> (line 164) and
  \<^verbatim>\<open>m_MaximumAbsoluteValueFilter->GetOutput()\<close> (line 146). A toolkit filter owns one
  output object: \<^verbatim>\<open>GetOutput\<close> hands back that object at every call and an update writes
  the new image into it; the driver makes no copy and does not disconnect the object from
  its filter. So a pointer names one of the two output objects, and the images the objects
  hold are a store that \<^verbatim>\<open>GenerateData\<close> threads through the scales.
\<close>

datatype OutputImagePointer = EigenToScalarOutput | MaximumAbsoluteValueOutput

record OutputObjects =
  EigenToScalarOutputImage :: OutputImageType
  MaximumAbsoluteValueOutputImage :: OutputImageType

definition GetImage :: "OutputObjects \<Rightarrow> OutputImagePointer \<Rightarrow> OutputImageType" where
  "GetImage objects pointer =
     (case pointer of
        EigenToScalarOutput \<Rightarrow> EigenToScalarOutputImage objects
      | MaximumAbsoluteValueOutput \<Rightarrow> MaximumAbsoluteValueOutputImage objects)"

text \<open>
  Before the first update both objects are empty. Each is written before it is read, so
  nothing depends on this choice.
\<close>

definition NewOutputObjects :: OutputObjects where
  "NewOutputObjects =
     \<lparr>EigenToScalarOutputImage = Map.empty, MaximumAbsoluteValueOutputImage = Map.empty\<rparr>"

text \<open>
  \<^verbatim>\<open>generateResponseAtScale\<close> (lines 153 to 165): the sigma of this level is set on the
  Hessian filter and the measure filter is updated, which runs the connected pipeline
  Hessian, eigen-analysis, measure, as \<^verbatim>\<open>GenerateData\<close> configured it (normalisation across
  scale on, the converted eigenvalue order \<open>order\<close>, the measure filter \<open>eigenToScalar\<close>).
  The update writes the response into the measure filter's output object, and the pointer to
  that object is returned. \<^verbatim>\<open>GetElement\<close> does no range check; every caller passes a level
  below the array's size.
\<close>

definition generateResponseAtScale ::
  "('g, 't, 'e) MultiScaleHessianEnhancementImageFilter \<Rightarrow> 'e EigenToScalarImageFilterType \<Rightarrow>
   InternalEigenValueOrderType \<Rightarrow> nat \<Rightarrow> OutputObjects \<Rightarrow>
   error + (OutputImagePointer \<times> OutputObjects)" where
  "generateResponseAtScale this eigenToScalar order scaleLevel objects =
     (let thisSigma = m_SigmaArray this ! scaleLevel in
      case m_HessianFilter this
             \<lparr>m_NormalizeAcrossScale = True, m_Sigma = thisSigma, m_Input = GetInput this\<rparr> of
        Inl e \<Rightarrow> Inl e
      | Inr (hessianFilter, hessian) \<Rightarrow>
          (case m_EigenAnalysisFilter this order hessian of
             Inl e \<Rightarrow> Inl e
           | Inr eigenValues \<Rightarrow>
               (case EigenToScalar_Update eigenToScalar eigenValues of
                  Inl e \<Rightarrow> Inl e
                | Inr response \<Rightarrow>
                    Inr (EigenToScalarOutput,
                         objects\<lparr>EigenToScalarOutputImage := response\<rparr>))))"

text \<open>
  The combination of lines 140 to 146: the object \<^verbatim>\<open>outputImageTypePointer\<close> points to is
  set as input 1 of the maximum-absolute-value filter, the one
  \<^verbatim>\<open>tempResponseOutputImageTypePointer\<close> points to as input 2; the filter is updated, which
  reads what the two objects hold at that moment and writes its own output object; the
  pointer to that object becomes \<^verbatim>\<open>outputImageTypePointer\<close>.
\<close>

definition combine_step ::
  "('g, 't, 'e) MultiScaleHessianEnhancementImageFilter \<Rightarrow> OutputImagePointer \<Rightarrow>
   OutputImagePointer \<Rightarrow> OutputObjects \<Rightarrow> OutputImagePointer \<times> OutputObjects" where
  "combine_step this outputImageTypePointer tempResponseOutputImageTypePointer objects =
     (MaximumAbsoluteValueOutput,
      objects\<lparr>MaximumAbsoluteValueOutputImage :=
        m_MaximumAbsoluteValueFilter this
          (GetImage objects outputImageTypePointer)
          (GetImage objects tempResponseOutputImageTypePointer)\<rparr>)"

text \<open>
  The loop over the remaining sigma values (lines 135 to 147): the response at this level,
  then the combination with the running image. After the last level the object the running
  pointer names is grafted to the driver's output (line 150).
\<close>

function scale_loop ::
  "('g, 't, 'e) MultiScaleHessianEnhancementImageFilter \<Rightarrow> 'e EigenToScalarImageFilterType \<Rightarrow>
   InternalEigenValueOrderType \<Rightarrow> nat \<Rightarrow> OutputImagePointer \<Rightarrow> OutputObjects \<Rightarrow>
   error + OutputImageType" where
  "scale_loop this eigenToScalar order scaleLevel outputImageTypePointer objects =
     (if scaleLevel < length (m_SigmaArray this) then
        (case generateResponseAtScale this eigenToScalar order scaleLevel objects of
           Inl e \<Rightarrow> Inl e
         | Inr (tempResponseOutputImageTypePointer, objects') \<Rightarrow>
             (case combine_step this outputImageTypePointer tempResponseOutputImageTypePointer
                     objects' of
                (outputImageTypePointer', objects'') \<Rightarrow>
                  scale_loop this eigenToScalar order (Suc scaleLevel)
                    outputImageTypePointer' objects''))
      else Inr (GetImage objects outputImageTypePointer))"
  by pat_completeness auto
termination
  by (relation "measure (\<lambda>(this, f, order, scaleLevel, out, objects).
                  length (m_SigmaArray this) - scaleLevel)") auto

declare scale_loop.simps [simp del]

text \<open>
  \<^verbatim>\<open>GenerateData\<close> (lines 68 to 151): the two checks, the conversion of the eigenvalue order,
  the first scale, the loop from level 1, and the result grafted to the output.
\<close>

definition GenerateData ::
  "('g, 't, 'e) MultiScaleHessianEnhancementImageFilter \<Rightarrow> error + OutputImageType" where
  "GenerateData this =
     (case m_EigenToScalarImageFilter this of
        None \<Rightarrow> Inl (ExceptionObject ''EigenToScalarImageFilter is not present'')
      | Some eigenToScalar \<Rightarrow>
          if length (m_SigmaArray this) < 1
          then Inl (ExceptionObject
                 ''SigmaArray must have at least one sigma value. Given array of size 0'')
          else
            (case ConvertType (GetEigenValueOrder eigenToScalar) of
               Inl e \<Rightarrow> Inl e
             | Inr order \<Rightarrow>
                 (case generateResponseAtScale this eigenToScalar order 0 NewOutputObjects of
                    Inl e \<Rightarrow> Inl e
                  | Inr (outputImageTypePointer, objects) \<Rightarrow>
                      scale_loop this eigenToScalar order 1 outputImageTypePointer objects)))"

text \<open>
  The single-scale pipeline in the spec's words (section 4.4, steps 2 and 3): the ordering
  policy is derived from the measure functor's declared preference, then the tensor field at
  the scale, its decomposition under that policy, and the measure.
\<close>

definition single_scale_pipeline ::
  "('g HessianFilterType \<Rightarrow> error + ('g HessianFilterType \<times> 't)) \<Rightarrow>
   (InternalEigenValueOrderType \<Rightarrow> 't \<Rightarrow> error + 'e) \<Rightarrow> 'e EigenToScalarImageFilterType \<Rightarrow>
   'g \<Rightarrow> real \<Rightarrow> error + OutputImageType" where
  "single_scale_pipeline TensorField Decompose Measure grid sigma =
     (case ConvertType (GetEigenValueOrder Measure) of
        Inl e \<Rightarrow> Inl e
      | Inr policy \<Rightarrow>
          (case TensorField \<lparr>m_NormalizeAcrossScale = True, m_Sigma = sigma, m_Input = grid\<rparr> of
             Inl e \<Rightarrow> Inl e
           | Inr (stage, tensors) \<Rightarrow>
               (case Decompose policy tensors of
                  Inl e \<Rightarrow> Inl e
                | Inr triples \<Rightarrow> EigenToScalar_Update Measure triples)))"

section \<open>Properties\<close>

subsection \<open>The scale schedule\<close>

lemma take_update_append:
  assumes "k < length xs"
  shows "take (Suc k) (xs[k := v]) = take k xs @ [v]"
  using assms by (simp add: take_Suc_conv_app_nth)

lemma sigma_loop_equispaced:
  "k \<le> length xs \<Longrightarrow>
   sigma_loop lo hi n EquispacedSigmaSteps k xs =
     Inr (take k xs @ map (equispaced_sigma lo hi n) [k..<length xs])"
proof (induction "length xs - k" arbitrary: k xs)
  case 0
  then show ?case by (simp add: sigma_loop.simps[of _ _ _ _ k])
next
  case (Suc d)
  then have lt: "k < length xs" by simp
  let ?ys = "xs[k := equispaced_sigma lo hi n k]"
  have "sigma_loop lo hi n EquispacedSigmaSteps k xs =
        sigma_loop lo hi n EquispacedSigmaSteps (Suc k) ?ys"
    using lt by (subst sigma_loop.simps) (simp add: equispaced_sigma_def Let_def)
  also have "\<dots> = Inr (take (Suc k) ?ys @ map (equispaced_sigma lo hi n) [Suc k..<length ?ys])"
    using Suc lt by (intro Suc.hyps(1)) auto
  also have "\<dots> = Inr (take k xs @ map (equispaced_sigma lo hi n) [k..<length xs])"
    using lt by (simp add: take_update_append upt_conv_Cons)
  finally show ?case .
qed

lemma sigma_loop_logarithmic:
  "k \<le> length xs \<Longrightarrow>
   sigma_loop lo hi n LogarithmicSigmaSteps k xs =
     Inr (take k xs @ map (logarithmic_sigma lo hi n) [k..<length xs])"
proof (induction "length xs - k" arbitrary: k xs)
  case 0
  then show ?case by (simp add: sigma_loop.simps[of _ _ _ _ k])
next
  case (Suc d)
  then have lt: "k < length xs" by simp
  let ?ys = "xs[k := logarithmic_sigma lo hi n k]"
  have "sigma_loop lo hi n LogarithmicSigmaSteps k xs =
        sigma_loop lo hi n LogarithmicSigmaSteps (Suc k) ?ys"
    using lt by (subst sigma_loop.simps) (simp add: logarithmic_sigma_def Let_def)
  also have "\<dots> = Inr (take (Suc k) ?ys @ map (logarithmic_sigma lo hi n) [Suc k..<length ?ys])"
    using Suc lt by (intro Suc.hyps(1)) auto
  also have "\<dots> = Inr (take k xs @ map (logarithmic_sigma lo hi n) [k..<length xs])"
    using lt by (simp add: take_update_append upt_conv_Cons)
  finally show ?case .
qed

text \<open>The schedule a valid call returns, in closed form.\<close>

lemma GenerateSigmaArray_value:
  assumes "1 \<le> n" and "m \<noteq> UnknownSigmaSteps"
  shows "GenerateSigmaArray a b n m =
           Inr (min a b # map (sigma_at m (min a b) (max a b) (if a = b then 1 else n))
                            [1..<(if a = b then 1 else n)])"
proof -
  define lo where "lo = min a b"
  define hi where "hi = max a b"
  define n' where "n' = (if a = b then 1 else n)"
  have n': "1 \<le> n'" using assms by (simp add: n'_def)
  have sw: "(if a > b then (b, a) else (a, b)) = (lo, hi)"
    by (auto simp: lo_def hi_def)
  have eq: "(lo = hi) = (a = b)" by (auto simp: lo_def hi_def min_def max_def)
  have arr: "(replicate n' (0::real))[0 := lo] = lo # replicate (n' - 1) 0"
    using n' by (cases n') auto
  have "GenerateSigmaArray a b n m = sigma_loop lo hi n' m 1 (lo # replicate (n' - 1) 0)"
    using assms(1)
    by (simp add: GenerateSigmaArray_def sw eq n'_def[symmetric] arr del: replicate.simps)
  also have "\<dots> = Inr (lo # map (sigma_at m lo hi n') [1..<n'])"
    using n' assms(2)
    by (cases m) (simp_all add: sigma_loop_equispaced sigma_loop_logarithmic sigma_at_def)
  finally show ?thesis by (simp add: lo_def hi_def n'_def)
qed

lemma equispaced_sigma_mono:
  "i \<le> j \<Longrightarrow> equispaced_sigma lo hi n i \<le> equispaced_sigma lo hi n j"
proof -
  assume "i \<le> j"
  have "(0::real) \<le> 1 / 10 ^ 10" by simp
  then have "0 \<le> max (1 / 10 ^ 10) ((hi - lo) / real (n - 1))" by (rule max.coboundedI1)
  then show ?thesis using \<open>i \<le> j\<close>
    unfolding equispaced_sigma_def by (simp add: mult_left_mono)
qed

lemma logarithmic_sigma_mono:
  "i \<le> j \<Longrightarrow> logarithmic_sigma lo hi n i \<le> logarithmic_sigma lo hi n j"
proof -
  assume "i \<le> j"
  have "(0::real) \<le> 1 / 10 ^ 10" by simp
  then have "0 \<le> max (1 / 10 ^ 10) ((ln hi - ln lo) / real (n - 1))" by (rule max.coboundedI1)
  then show ?thesis using \<open>i \<le> j\<close>
    unfolding logarithmic_sigma_def by (simp add: mult_left_mono)
qed

lemma sigma_at_mono: "i \<le> j \<Longrightarrow> sigma_at m lo hi n i \<le> sigma_at m lo hi n j"
  by (cases m) (simp_all add: sigma_at_def equispaced_sigma_mono logarithmic_sigma_mono)

lemma sigma_at_0: "0 < lo \<Longrightarrow> sigma_at m lo hi n 0 = lo"
  by (cases m) (simp_all add: sigma_at_def equispaced_sigma_def logarithmic_sigma_def)

lemma sorted_sigma_schedule:
  assumes "0 < lo"
  shows "sorted (lo # map (sigma_at m lo hi n) [1..<k])"
proof -
  have "sorted (map (sigma_at m lo hi n) [1..<k])"
    by (rule sorted_wrt_mono_rel[OF _ sorted_upt, THEN sorted_map[THEN iffD2]])
       (simp add: sigma_at_mono)
  moreover have "lo \<le> sigma_at m lo hi n i" for i
    using sigma_at_mono[of 0 i m lo hi n] sigma_at_0[OF assms, of m hi n] by simp
  ultimately show ?thesis by auto
qed

text \<open>
  C5. A call of \<open>GenerateSigmaArray\<close> with a count of at least 1, positive bounds and one of
  the two step methods returns a schedule: it is not empty, its element at index 0 is the
  smaller of the two bounds, and it is sorted in non-decreasing order.
\<close>

theorem GenerateSigmaArray_min_first_sorted:
  assumes "1 \<le> NumberOfSigmaSteps" and "0 < SigmaMinimum" and "0 < SigmaMaximum"
    and "SigmaStepMethod = EquispacedSigmaSteps \<or> SigmaStepMethod = LogarithmicSigmaSteps"
  shows "\<exists>sigmaArray.
           GenerateSigmaArray SigmaMinimum SigmaMaximum NumberOfSigmaSteps SigmaStepMethod
             = Inr sigmaArray
         \<and> sigmaArray \<noteq> []
         \<and> sigmaArray ! 0 = min SigmaMinimum SigmaMaximum
         \<and> sorted sigmaArray"
proof -
  have m: "SigmaStepMethod \<noteq> UnknownSigmaSteps" using assms(4) by auto
  have lo: "0 < min SigmaMinimum SigmaMaximum" using assms(2,3) by simp
  let ?n = "if SigmaMinimum = SigmaMaximum then 1 else NumberOfSigmaSteps"
  let ?xs = "min SigmaMinimum SigmaMaximum #
             map (sigma_at SigmaStepMethod (min SigmaMinimum SigmaMaximum)
                    (max SigmaMinimum SigmaMaximum) ?n) [1..<?n]"
  have "GenerateSigmaArray SigmaMinimum SigmaMaximum NumberOfSigmaSteps SigmaStepMethod = Inr ?xs"
    by (rule GenerateSigmaArray_value[OF assms(1) m])
  moreover have "sorted ?xs" by (rule sorted_sigma_schedule[OF lo])
  moreover have "?xs \<noteq> []" and "?xs ! 0 = min SigmaMinimum SigmaMaximum" by simp_all
  ultimately show ?thesis by blast
qed

text \<open>
  The theorem at two calls: three equispaced steps between 1 and 2, and three logarithmic
  steps with the bounds given in the wrong order.
\<close>

theorem GenerateSigmaArray_min_first_sorted_witness:
  "GenerateSigmaArray 1 2 3 EquispacedSigmaSteps = Inr [1, 3 / 2, 2]
   \<and> (\<exists>sigmaArray. GenerateSigmaArray 1 2 3 EquispacedSigmaSteps = Inr sigmaArray
         \<and> sigmaArray \<noteq> [] \<and> sigmaArray ! 0 = 1 \<and> sorted sigmaArray)
   \<and> (\<exists>sigmaArray. GenerateSigmaArray 2 1 3 LogarithmicSigmaSteps = Inr sigmaArray
         \<and> sigmaArray \<noteq> [] \<and> sigmaArray ! 0 = 1 \<and> sorted sigmaArray)"
proof -
  have "GenerateSigmaArray 1 2 3 EquispacedSigmaSteps = Inr [1, 3 / 2, 2]"
    by (simp add: GenerateSigmaArray_value sigma_at_def equispaced_sigma_def upt_conv_Cons)
  moreover have "\<exists>sigmaArray. GenerateSigmaArray 1 2 3 EquispacedSigmaSteps = Inr sigmaArray
         \<and> sigmaArray \<noteq> [] \<and> sigmaArray ! 0 = 1 \<and> sorted sigmaArray"
    using GenerateSigmaArray_min_first_sorted[of 3 1 2 EquispacedSigmaSteps] by simp
  moreover have "\<exists>sigmaArray. GenerateSigmaArray 2 1 3 LogarithmicSigmaSteps = Inr sigmaArray
         \<and> sigmaArray \<noteq> [] \<and> sigmaArray ! 0 = 1 \<and> sorted sigmaArray"
    using GenerateSigmaArray_min_first_sorted[of 3 2 1 LogarithmicSigmaSteps] by simp
  ultimately show ?thesis by blast
qed

text \<open>
  C8, as the code has it. With equal bounds the count check still comes first: a count below
  1 raises the exception, and every other count is replaced by 1, so that the schedule is the
  single common value whatever the step method.
\<close>

theorem GenerateSigmaArray_equal_bounds:
  "GenerateSigmaArray SigmaMinimum SigmaMinimum NumberOfSigmaSteps SigmaStepMethod =
     (if NumberOfSigmaSteps < 1
      then Inl (ExceptionObject ''Number of sigma values requested is less than 1'')
      else Inr [SigmaMinimum])"
  by (simp add: GenerateSigmaArray_def sigma_loop.simps[of _ _ _ _ "Suc 0"])

text \<open>
  C8 as stated fails for a requested count of 0: with both bounds equal to 2 the call raises
  the exception and returns no schedule.
\<close>

theorem GenerateSigmaArray_equal_bounds_zero_steps:
  "GenerateSigmaArray 2 2 0 EquispacedSigmaSteps
     = Inl (ExceptionObject ''Number of sigma values requested is less than 1'')
   \<and> GenerateSigmaArray 2 2 0 EquispacedSigmaSteps \<noteq> Inr [2]"
  by (simp add: GenerateSigmaArray_def)

subsection \<open>Masked evaluation\<close>

lemma region_loop_Output:
  "Output (region_loop inputPtr maskPointer ProcessPixel region run) index =
     (if index \<in> set region then Some (expected_pixel inputPtr maskPointer ProcessPixel index)
      else Output run index)"
  by (induction region arbitrary: run)
     (auto simp: expected_pixel_def outside_mask_def Let_def split: option.splits)

lemma region_loop_calls:
  "set (ProcessPixelCalls (region_loop inputPtr maskPointer ProcessPixel region run)) =
     set (ProcessPixelCalls run)
       \<union> {index \<in> set region. \<not> outside_mask inputPtr maskPointer index}"
  by (induction region arbitrary: run)
     (auto simp: outside_mask_def Let_def split: option.splits)

lemma foldl_region_loop_Output:
  "Output (foldl (\<lambda>run region. region_loop inputPtr maskPointer ProcessPixel region run)
       run regions) index =
     (if index \<in> set (concat regions)
      then Some (expected_pixel inputPtr maskPointer ProcessPixel index)
      else Output run index)"
  by (induction regions arbitrary: run) (auto simp: region_loop_Output)

lemma foldl_region_loop_calls:
  "set (ProcessPixelCalls
         (foldl (\<lambda>run region. region_loop inputPtr maskPointer ProcessPixel region run)
            run regions)) =
     set (ProcessPixelCalls run)
       \<union> {index \<in> set (concat regions). \<not> outside_mask inputPtr maskPointer index}"
  by (induction regions arbitrary: run) (auto simp: region_loop_calls)

text \<open>
  C3. At every index of the requested region, however the region is split: without a mask,
  or with the index's physical point inside the mask, the output is \<open>ProcessPixel\<close> of the
  input pixel; with a mask and the point outside it, the output is 0 and \<open>ProcessPixel\<close> was
  not called at that index. \<open>ProcessPixel\<close> is arbitrary: this holds for every formula.
\<close>

theorem EigenToMeasure_GenerateData_masked:
  assumes "index \<in> set (concat regions)"
  shows "(case maskPointer of
            None \<Rightarrow>
              Output (EigenToMeasure_GenerateData inputPtr maskPointer ProcessPixel regions) index
                = Some (ProcessPixel (Get inputPtr index))
          | Some maskObject \<Rightarrow>
              if IsInsideInObjectSpace maskObject (TransformIndexToPhysicalPoint inputPtr index)
              then Output (EigenToMeasure_GenerateData inputPtr maskPointer ProcessPixel regions)
                     index = Some (ProcessPixel (Get inputPtr index))
              else Output (EigenToMeasure_GenerateData inputPtr maskPointer ProcessPixel regions)
                     index = Some 0
                   \<and> index \<notin> set (ProcessPixelCalls
                        (EigenToMeasure_GenerateData inputPtr maskPointer ProcessPixel regions)))"
  using assms
  by (auto simp: EigenToMeasure_GenerateData_def foldl_region_loop_Output
      foldl_region_loop_calls expected_pixel_def outside_mask_def AllocateOutputs_def
      split: option.splits)

text \<open>
  The theorem on an image of two voxels in two pieces, the mask holding the points whose
  first coordinate is below 1, the formula the sum of the eigenvalues plus 5: the voxel
  outside the mask gets 0 without a call, the one inside gets the formula's value, and
  without a mask both get it.
\<close>

theorem EigenToMeasure_GenerateData_masked_witness:
  "Output (EigenToMeasure_GenerateData
       \<lparr>Get = (\<lambda>(i, j, k). (real_of_int i, 1, 1)),
        TransformIndexToPhysicalPoint = (\<lambda>(i, j, k). (real_of_int i, real_of_int j, real_of_int k))\<rparr>
       (Some \<lparr>IsInsideInObjectSpace = (\<lambda>(x, y, z). x < 1)\<rparr>)
       (\<lambda>(a, b, c). a + b + c + 5) [[(0, 0, 0)], [(1, 0, 0)]]) (1, 0, 0) = Some 0
   \<and> (1, 0, 0) \<notin> set (ProcessPixelCalls (EigenToMeasure_GenerateData
       \<lparr>Get = (\<lambda>(i, j, k). (real_of_int i, 1, 1)),
        TransformIndexToPhysicalPoint = (\<lambda>(i, j, k). (real_of_int i, real_of_int j, real_of_int k))\<rparr>
       (Some \<lparr>IsInsideInObjectSpace = (\<lambda>(x, y, z). x < 1)\<rparr>)
       (\<lambda>(a, b, c). a + b + c + 5) [[(0, 0, 0)], [(1, 0, 0)]]))
   \<and> Output (EigenToMeasure_GenerateData
       \<lparr>Get = (\<lambda>(i, j, k). (real_of_int i, 1, 1)),
        TransformIndexToPhysicalPoint = (\<lambda>(i, j, k). (real_of_int i, real_of_int j, real_of_int k))\<rparr>
       (Some \<lparr>IsInsideInObjectSpace = (\<lambda>(x, y, z). x < 1)\<rparr>)
       (\<lambda>(a, b, c). a + b + c + 5) [[(0, 0, 0)], [(1, 0, 0)]]) (0, 0, 0) = Some 7
   \<and> Output (EigenToMeasure_GenerateData
       \<lparr>Get = (\<lambda>(i, j, k). (real_of_int i, 1, 1)),
        TransformIndexToPhysicalPoint = (\<lambda>(i, j, k). (real_of_int i, real_of_int j, real_of_int k))\<rparr>
       None
       (\<lambda>(a, b, c). a + b + c + 5) [[(0, 0, 0)], [(1, 0, 0)]]) (1, 0, 0) = Some 8"
proof -
  let ?img = "\<lparr>Get = (\<lambda>(i, j, k). (real_of_int i, 1, 1)),
        TransformIndexToPhysicalPoint =
          (\<lambda>(i, j, k). (real_of_int i, real_of_int j, real_of_int k))\<rparr> :: InputImageType"
  let ?mask = "\<lparr>IsInsideInObjectSpace = (\<lambda>(x, y, z). x < 1)\<rparr> :: MaskSpatialObjectType"
  let ?f = "(\<lambda>(a, b, c). a + b + c + 5) :: EigenValueArrayType \<Rightarrow> real"
  let ?regions = "[[(0, 0, 0)], [(1, 0, 0)]] :: IndexType list list"
  have in0: "(0, 0, 0) \<in> set (concat ?regions)" and in1: "(1, 0, 0) \<in> set (concat ?regions)"
    by simp_all
  from EigenToMeasure_GenerateData_masked[OF in1, where maskPointer = "Some ?mask" and inputPtr = ?img and ProcessPixel = ?f]
  have a: "Output (EigenToMeasure_GenerateData ?img (Some ?mask) ?f ?regions) (1, 0, 0) = Some 0
        \<and> (1, 0, 0) \<notin> set (ProcessPixelCalls (EigenToMeasure_GenerateData ?img (Some ?mask) ?f ?regions))"
    by simp
  from EigenToMeasure_GenerateData_masked[OF in0, where maskPointer = "Some ?mask" and inputPtr = ?img and ProcessPixel = ?f]
  have b: "Output (EigenToMeasure_GenerateData ?img (Some ?mask) ?f ?regions) (0, 0, 0) = Some 7"
    by simp
  from EigenToMeasure_GenerateData_masked[OF in1, where maskPointer = None and inputPtr = ?img and ProcessPixel = ?f]
  have c: "Output (EigenToMeasure_GenerateData ?img None ?f ?regions) (1, 0, 0) = Some 8"
    by simp
  from a b c show ?thesis by blast
qed

subsection \<open>Descoteaux parameter estimation\<close>

lemma Max_insert_max:
  fixes a b :: real
  assumes "finite S"
  shows "Max (insert (max a b) S) = Max (insert a (insert b S))"
  using assms by (cases "S = {}") (simp_all add: max.assoc)

lemma finite_foreground_norms: "finite (foreground_norms b inputPtr maskPointer region)"
  by (simp add: foreground_norms_def)

lemma foreground_norms_Cons:
  "foreground_norms b inputPtr maskPointer (index # region) =
     (if is_foreground b maskPointer index
      then insert (CalculateFrobeniusNorm (inputPtr index))
             (foreground_norms b inputPtr maskPointer region)
      else foreground_norms b inputPtr maskPointer region)"
  by (simp add: foreground_norms_def foreground_voxels_def)

text \<open>The scan of a region is the maximum of its start value and the foreground norms.\<close>

lemma scan_region_Max:
  "scan_region b inputPtr maskPointer region a =
     Max (insert a (foreground_norms b inputPtr maskPointer region))"
proof (induction region arbitrary: a)
  case Nil
  then show ?case by (simp add: foreground_norms_def foreground_voxels_def)
next
  case (Cons index region)
  then show ?case
    by (simp add: foreground_norms_Cons Max_insert_max[OF finite_foreground_norms])
qed

lemma scan_region_from_0:
  "0 \<le> a \<Longrightarrow> scan_region b inputPtr maskPointer region a
     = max a (scan_region b inputPtr maskPointer region 0)"
  unfolding scan_region_Max
  using finite_foreground_norms[of b inputPtr maskPointer region]
  by (cases "foreground_norms b inputPtr maskPointer region = {}")
     (simp_all add: max.assoc[symmetric])

lemma scan_region_append:
  "scan_region b inputPtr maskPointer (r1 @ r2) a =
     scan_region b inputPtr maskPointer r2 (scan_region b inputPtr maskPointer r1 a)"
  by (induction r1 arbitrary: a) simp_all

lemma scan_region_nonneg: "0 \<le> a \<Longrightarrow> 0 \<le> scan_region b inputPtr maskPointer region a"
  by (induction region arbitrary: a) (simp_all add: max.coboundedI1)

text \<open>
  Merging the per-thread maxima gives the scan of the whole image: the split among the
  threads does not change the result.
\<close>

lemma fold_max_scan:
  "0 \<le> a \<Longrightarrow>
   fold max (map (\<lambda>region. scan_region b inputPtr maskPointer region 0) regions) a =
     scan_region b inputPtr maskPointer (concat regions) a"
proof (induction regions arbitrary: a)
  case Nil
  then show ?case by simp
next
  case (Cons region regions)
  have "0 \<le> scan_region b inputPtr maskPointer region a"
    using Cons.prems by (rule scan_region_nonneg)
  then show ?case
    using Cons.prems
    by (simp add: Cons.IH scan_region_append scan_region_from_0[of a] max.coboundedI2
        max.commute)
qed

text \<open>Thread \<open>threadId\<close> writes slot \<open>threadId\<close> and no other.\<close>

lemma run_threads_slots:
  assumes "m_MaxFrobeniusNorm this = pre @ replicate k 0" and "length pre = threadId"
    and "length regions \<le> k"
  shows "run_threads this inputPtr maskPointer regions threadId =
           this\<lparr>m_MaxFrobeniusNorm :=
             pre @ map (\<lambda>region. scan_region (m_BackgroundValue this) inputPtr maskPointer
                                   region 0) regions
                 @ replicate (k - length regions) 0\<rparr>"
  using assms
proof (induction regions arbitrary: this pre k threadId)
  case Nil
  then show ?case by simp
next
  case (Cons region regions)
  let ?s = "scan_region (m_BackgroundValue this) inputPtr maskPointer region 0"
  let ?next = "ThreadedGenerateData this inputPtr maskPointer region threadId"
  from Cons.prems obtain k' where k: "k = Suc k'" by (cases k) auto
  have upd: "m_MaxFrobeniusNorm ?next = (pre @ [?s]) @ replicate k' 0"
    using Cons.prems(1,2) k
    by (simp add: ThreadedGenerateData_def nth_append list_update_append)
  have bg: "m_BackgroundValue ?next = m_BackgroundValue this"
    by (simp add: ThreadedGenerateData_def)
  have "run_threads ?next inputPtr maskPointer regions (Suc threadId) =
          ?next\<lparr>m_MaxFrobeniusNorm :=
             (pre @ [?s]) @ map (\<lambda>region. scan_region (m_BackgroundValue ?next) inputPtr
                                           maskPointer region 0) regions
                 @ replicate (k' - length regions) 0\<rparr>"
    using Cons.prems k by (intro Cons.IH[OF upd]) auto
  then show ?case
    using k by (simp add: bg ThreadedGenerateData_def)
qed

text \<open>The state a run leaves, in closed form.\<close>

lemma Descoteaux_Update_value:
  "Descoteaux_Update this inputPtr maskPointer regions =
     this\<lparr>m_MaxFrobeniusNorm :=
            map (\<lambda>region. scan_region (m_BackgroundValue this) inputPtr maskPointer region 0)
              regions,
          AlphaOutput := 1 / 2, BetaOutput := 1 / 2,
          COutput := m_FrobeniusNormWeight this *
            Max (insert 0 (foreground_norms (m_BackgroundValue this) inputPtr maskPointer
                             (concat regions)))\<rparr>"
proof -
  let ?before = "BeforeThreadedGenerateData this (length regions)"
  have "run_threads ?before inputPtr maskPointer regions 0 =
          ?before\<lparr>m_MaxFrobeniusNorm :=
             [] @ map (\<lambda>region. scan_region (m_BackgroundValue ?before) inputPtr maskPointer
                                 region 0) regions
                @ replicate (length regions - length regions) 0\<rparr>"
    by (rule run_threads_slots) (simp_all add: BeforeThreadedGenerateData_def)
  moreover have "fold max (map (\<lambda>region. scan_region (m_BackgroundValue this) inputPtr
                                           maskPointer region 0) regions) 0
      = Max (insert 0 (foreground_norms (m_BackgroundValue this) inputPtr maskPointer
                         (concat regions)))"
    by (subst fold_max_scan) (simp_all add: scan_region_Max)
  ultimately show ?thesis
    by (simp add: Descoteaux_Update_def AfterThreadedGenerateData_def
        BeforeThreadedGenerateData_def)
qed

lemma CalculateFrobeniusNorm_nonneg: "0 \<le> CalculateFrobeniusNorm pixel"
  by (cases pixel) (simp add: CalculateFrobeniusNorm_def)

lemma Max_insert_0_nonneg:
  fixes S :: "real set"
  assumes "finite S" and "S \<noteq> {}" and "\<forall>x\<in>S. 0 \<le> x"
  shows "Max (insert 0 S) = Max S"
proof -
  have "0 \<le> Max S" using assms by (meson Max_in)
  then show ?thesis using assms by (simp add: max_def)
qed

text \<open>
  C1. After a run of the estimator, whatever the eigenvalue image, the mask and the split
  among the threads, alpha is 0.5 and beta is 0.5; and when some voxel is foreground, c is
  the Frobenius norm weight times the largest Frobenius norm of a foreground voxel (every
  voxel without a mask, the voxels whose mask label differs from the background value with
  one).
\<close>

theorem Descoteaux_Update_parameters:
  "GetAlpha (Descoteaux_Update this inputPtr maskPointer regions) = 1 / 2
   \<and> GetBeta (Descoteaux_Update this inputPtr maskPointer regions) = 1 / 2
   \<and> (foreground_voxels (m_BackgroundValue this) maskPointer (concat regions) \<noteq> [] \<longrightarrow>
        GetC (Descoteaux_Update this inputPtr maskPointer regions) =
          m_FrobeniusNormWeight this *
            Max (foreground_norms (m_BackgroundValue this) inputPtr maskPointer (concat regions)))"
proof -
  let ?N = "foreground_norms (m_BackgroundValue this) inputPtr maskPointer (concat regions)"
  have "Max (insert 0 ?N) = Max ?N"
    if "foreground_voxels (m_BackgroundValue this) maskPointer (concat regions) \<noteq> []"
    using that by (intro Max_insert_0_nonneg finite_foreground_norms)
      (auto simp: foreground_norms_def CalculateFrobeniusNorm_nonneg)
  then show ?thesis
    by (simp add: Descoteaux_Update_value GetAlpha_def GetBeta_def GetC_def)
qed


text \<open>
  The theorem on small versions of the module's test images (test lines 208 to 242): a
  uniform field of (-1, -1, -1) without a mask, split among two threads, gives c = 0.5 * sqrt 3;
  a field holding (3, 3, 3) where the mask label is 2 and (-1, -1, -1) where it is 1 gives
  c = 0.5 * sqrt 27 with background value 1, and c = 0.5 * sqrt 3 with background value 2.
\<close>

theorem Descoteaux_Update_parameters_witness:
  "GetAlpha (Descoteaux_Update (Descoteaux_New (0::nat)) (\<lambda>index. (- 1, - 1, - 1)) None
       [[(0, 0, 0), (1, 0, 0)], [(0, 1, 0)]]) = 1 / 2
   \<and> GetBeta (Descoteaux_Update (Descoteaux_New (0::nat)) (\<lambda>index. (- 1, - 1, - 1)) None
       [[(0, 0, 0), (1, 0, 0)], [(0, 1, 0)]]) = 1 / 2
   \<and> GetC (Descoteaux_Update (Descoteaux_New (0::nat)) (\<lambda>index. (- 1, - 1, - 1)) None
       [[(0, 0, 0), (1, 0, 0)], [(0, 1, 0)]]) = 1 / 2 * sqrt 3
   \<and> GetC (Descoteaux_Update (Descoteaux_New (1::nat))
       (\<lambda>index. if index = (1, 0, 0) then (3, 3, 3) else (- 1, - 1, - 1))
       (Some [(0, 0, 0) \<mapsto> 1, (1, 0, 0) \<mapsto> 2]) [[(0, 0, 0)], [(1, 0, 0)]]) = 1 / 2 * sqrt 27
   \<and> GetC (Descoteaux_Update (Descoteaux_New (2::nat))
       (\<lambda>index. if index = (1, 0, 0) then (3, 3, 3) else (- 1, - 1, - 1))
       (Some [(0, 0, 0) \<mapsto> 1, (1, 0, 0) \<mapsto> 2]) [[(0, 0, 0)], [(1, 0, 0)]]) = 1 / 2 * sqrt 3"
proof -
  let ?image = "(\<lambda>index. (- 1, - 1, - 1)) :: IndexType \<Rightarrow> EigenValueArrayType"
  let ?image2 = "(\<lambda>index. if index = (1, 0, 0) then (3, 3, 3) else (- 1, - 1, - 1))
                 :: IndexType \<Rightarrow> EigenValueArrayType"
  let ?mask = "[(0, 0, 0) \<mapsto> 1, (1, 0, 0) \<mapsto> 2] :: IndexType \<rightharpoonup> nat"
  have a: "GetAlpha (Descoteaux_Update (Descoteaux_New (0::nat)) ?image None
               [[(0, 0, 0), (1, 0, 0)], [(0, 1, 0)]]) = 1 / 2
         \<and> GetBeta (Descoteaux_Update (Descoteaux_New (0::nat)) ?image None
               [[(0, 0, 0), (1, 0, 0)], [(0, 1, 0)]]) = 1 / 2
         \<and> GetC (Descoteaux_Update (Descoteaux_New (0::nat)) ?image None
               [[(0, 0, 0), (1, 0, 0)], [(0, 1, 0)]]) = 1 / 2 * sqrt 3"
    using Descoteaux_Update_parameters[where this = "Descoteaux_New (0::nat)"
        and inputPtr = ?image and maskPointer = None
        and regions = "[[(0, 0, 0), (1, 0, 0)], [(0, 1, 0)]]"]
    by (simp add: foreground_norms_def foreground_voxels_def is_foreground_def
        CalculateFrobeniusNorm_def Descoteaux_New_def)
  have b: "GetC (Descoteaux_Update (Descoteaux_New (1::nat)) ?image2 (Some ?mask)
               [[(0, 0, 0)], [(1, 0, 0)]]) = 1 / 2 * sqrt 27"
    using Descoteaux_Update_parameters[where this = "Descoteaux_New (1::nat)"
        and inputPtr = ?image2 and maskPointer = "Some ?mask"
        and regions = "[[(0, 0, 0)], [(1, 0, 0)]]"]
    by (simp add: foreground_norms_def foreground_voxels_def is_foreground_def
        CalculateFrobeniusNorm_def Descoteaux_New_def)
  have c: "GetC (Descoteaux_Update (Descoteaux_New (2::nat)) ?image2 (Some ?mask)
               [[(0, 0, 0)], [(1, 0, 0)]]) = 1 / 2 * sqrt 3"
    using Descoteaux_Update_parameters[where this = "Descoteaux_New (2::nat)"
        and inputPtr = ?image2 and maskPointer = "Some ?mask"
        and regions = "[[(0, 0, 0)], [(1, 0, 0)]]"]
    by (simp add: foreground_norms_def foreground_voxels_def is_foreground_def
        CalculateFrobeniusNorm_def Descoteaux_New_def)
  from a b c show ?thesis by blast
qed

text \<open>
  C9. When no voxel is foreground, or every foreground voxel has Frobenius norm 0, c is 0,
  the weight times 0. \<open>Descoteaux_Update\<close> is a total function to filter states with no
  error result: the degenerate case follows the path of every other run.
\<close>

theorem Descoteaux_Update_degenerate:
  assumes "foreground_voxels (m_BackgroundValue this) maskPointer (concat regions) = []
         \<or> (\<forall>index \<in> set (foreground_voxels (m_BackgroundValue this) maskPointer
                               (concat regions)).
               CalculateFrobeniusNorm (inputPtr index) = 0)"
  shows "GetC (Descoteaux_Update this inputPtr maskPointer regions) = 0
       \<and> GetC (Descoteaux_Update this inputPtr maskPointer regions)
           = m_FrobeniusNormWeight this * 0"
proof -
  let ?N = "foreground_norms (m_BackgroundValue this) inputPtr maskPointer (concat regions)"
  have "?N \<subseteq> {0}" using assms by (auto simp: foreground_norms_def)
  then have "insert 0 ?N = {0}" by auto
  then have "Max (insert 0 ?N) = Max {0}" by (simp only:)
  then have "Max (insert 0 ?N) = 0" by (simp only: Max_singleton)
  then show ?thesis
    by (simp add: Descoteaux_Update_value GetC_def)
qed

text \<open>
  The theorem on a mask that labels every voxel as background (no foreground voxel), and
  on a field of zero eigenvalues without a mask (every norm 0).
\<close>

theorem Descoteaux_Update_degenerate_witness:
  "GetC (Descoteaux_Update (Descoteaux_New (1::nat)) (\<lambda>index. (3, 3, 3))
       (Some [(0, 0, 0) \<mapsto> 1, (1, 0, 0) \<mapsto> 1]) [[(0, 0, 0)], [(1, 0, 0)]]) = 0
   \<and> GetC (Descoteaux_Update (Descoteaux_New (1::nat)) (\<lambda>index. (0, 0, 0)) None
       [[(0, 0, 0)], [(1, 0, 0)]]) = 0"
proof -
  have "GetC (Descoteaux_Update (Descoteaux_New (1::nat)) (\<lambda>index. (3, 3, 3))
       (Some [(0, 0, 0) \<mapsto> 1, (1, 0, 0) \<mapsto> 1]) [[(0, 0, 0)], [(1, 0, 0)]]) = 0"
    using Descoteaux_Update_degenerate[where this = "Descoteaux_New (1::nat)"
        and inputPtr = "\<lambda>index. (3, 3, 3)"
        and maskPointer = "Some [(0, 0, 0) \<mapsto> 1, (1, 0, 0) \<mapsto> 1]"
        and regions = "[[(0, 0, 0)], [(1, 0, 0)]]"]
    by (simp add: foreground_voxels_def is_foreground_def Descoteaux_New_def)
  moreover have "GetC (Descoteaux_Update (Descoteaux_New (1::nat)) (\<lambda>index. (0, 0, 0)) None
       [[(0, 0, 0)], [(1, 0, 0)]]) = 0"
    using Descoteaux_Update_degenerate[where this = "Descoteaux_New (1::nat)"
        and inputPtr = "\<lambda>index. (0, 0, 0)" and maskPointer = None
        and regions = "[[(0, 0, 0)], [(1, 0, 0)]]"]
    by (simp add: foreground_voxels_def is_foreground_def CalculateFrobeniusNorm_def)
  ultimately show ?thesis by blast
qed

text \<open>
  C10. On a freshly constructed estimator, before any run, the three getters return 0.5;
  so c is 0.5 until a run overwrites it.
\<close>

theorem Descoteaux_New_defaults:
  "GetAlpha (Descoteaux_New background) = 1 / 2
   \<and> GetBeta (Descoteaux_New background) = 1 / 2
   \<and> GetC (Descoteaux_New background) = 1 / 2"
  by (simp add: GetAlpha_def GetBeta_def GetC_def Descoteaux_New_def)

subsection \<open>The multi-scale driver\<close>

text \<open>
  C6. When the measure filter is not set, or the sigma array has fewer than one entry,
  \<open>GenerateData\<close> returns an exception and no image, and the exception is one of the two
  raised by the checks at its head. The driver \<open>this\<close> is arbitrary: the result does not depend
  on the input image nor on what any of the internal filters would compute or raise.
\<close>

theorem GenerateData_preconditions:
  assumes "m_EigenToScalarImageFilter this = None \<or> length (m_SigmaArray this) < 1"
  shows "\<exists>e. GenerateData this = Inl e \<and> ConfigurationError e"
  using assms
  by (auto simp: GenerateData_def ConfigurationError_def split: option.splits)

text \<open>
  The theorem on a freshly constructed driver (no measure filter, empty sigma array) and on
  the same driver with a measure filter set and the sigma array still empty.
\<close>

theorem GenerateData_preconditions_witness:
  "(\<exists>e. GenerateData (MultiScale_New (\<lambda>normalize sigma (grid::nat). sigma)
                         (\<lambda>order tensors. Inr tensors) 0) = Inl e
        \<and> ConfigurationError e)
   \<and> GenerateData (MultiScale_New (\<lambda>normalize sigma (grid::nat). sigma)
                     (\<lambda>order tensors. Inr tensors) 0)
       = Inl (ExceptionObject ''EigenToScalarImageFilter is not present'')
   \<and> (\<exists>e. GenerateData ((MultiScale_New (\<lambda>normalize sigma (grid::nat). sigma)
                          (\<lambda>order tensors. Inr tensors) 0)
            \<lparr>m_EigenToScalarImageFilter :=
               Some \<lparr>GetEigenValueOrder = OrderByMagnitude,
                     EigenToScalar_Update = (\<lambda>eigenValues. Inr Map.empty)\<rparr>\<rparr>) = Inl e
        \<and> ConfigurationError e)
   \<and> GenerateData ((MultiScale_New (\<lambda>normalize sigma (grid::nat). sigma)
                          (\<lambda>order tensors. Inr tensors) 0)
            \<lparr>m_EigenToScalarImageFilter :=
               Some \<lparr>GetEigenValueOrder = OrderByMagnitude,
                     EigenToScalar_Update = (\<lambda>eigenValues. Inr Map.empty)\<rparr>\<rparr>)
       = Inl (ExceptionObject
                ''SigmaArray must have at least one sigma value. Given array of size 0'')"
proof -
  let ?fresh = "MultiScale_New (\<lambda>normalize sigma (grid::nat). sigma)
                  (\<lambda>order tensors. Inr tensors) 0
                :: (nat, real, real) MultiScaleHessianEnhancementImageFilter"
  let ?set = "?fresh\<lparr>m_EigenToScalarImageFilter :=
               Some \<lparr>GetEigenValueOrder = OrderByMagnitude,
                     EigenToScalar_Update = (\<lambda>eigenValues. Inr Map.empty)\<rparr>\<rparr>"
  have "\<exists>e. GenerateData ?fresh = Inl e \<and> ConfigurationError e"
    using GenerateData_preconditions[of ?fresh] by (simp add: MultiScale_New_def)
  moreover have "GenerateData ?fresh
       = Inl (ExceptionObject ''EigenToScalarImageFilter is not present'')"
    by (simp add: GenerateData_def MultiScale_New_def)
  moreover have "\<exists>e. GenerateData ?set = Inl e \<and> ConfigurationError e"
    using GenerateData_preconditions[of ?set] by (simp add: MultiScale_New_def)
  moreover have "GenerateData ?set = Inl (ExceptionObject
                ''SigmaArray must have at least one sigma value. Given array of size 0'')"
    by (simp add: GenerateData_def MultiScale_New_def)
  ultimately show ?thesis by blast
qed

text \<open>
  C4. With a measure filter set and a sigma array of exactly one value, \<open>GenerateData\<close>
  returns what the single-scale pipeline returns at that value, for every input image and
  whatever the stages compute; and the result is the same whatever filter stands in the
  place of the maximum-absolute-value filter, which is not applied.
\<close>

theorem GenerateData_single_scale:
  "GenerateData (this\<lparr>m_SigmaArray := [sigma],
                      m_EigenToScalarImageFilter := Some eigenToScalar\<rparr>) =
     single_scale_pipeline (m_HessianFilter this) (m_EigenAnalysisFilter this) eigenToScalar
       (GetInput this) sigma
   \<and> GenerateData (this\<lparr>m_SigmaArray := [sigma],
                        m_EigenToScalarImageFilter := Some eigenToScalar,
                        m_MaximumAbsoluteValueFilter := combine\<rparr>) =
     GenerateData (this\<lparr>m_SigmaArray := [sigma],
                      m_EigenToScalarImageFilter := Some eigenToScalar\<rparr>)"
  by (simp add: GenerateData_def single_scale_pipeline_def generateResponseAtScale_def
      scale_loop.simps[of _ _ _ "Suc 0"] GetImage_def split: sum.splits prod.splits)

text \<open>
  C7. The tensor-field stage fails with \<open>InvalidParameter\<close> when the scale is not positive;
  with a positive scale it returns a tensor field and leaves the filter, and with it the
  input image, as it was.
\<close>

theorem HessianFilter_Update_sigma:
  "(m_Sigma hessianFilter \<le> 0 \<longrightarrow>
      HessianFilter_Update SecondDerivatives hessianFilter = Inl InvalidParameter)
   \<and> (0 < m_Sigma hessianFilter \<longrightarrow>
        (\<exists>hessianFilter' tensors.
           HessianFilter_Update SecondDerivatives hessianFilter = Inr (hessianFilter', tensors)
           \<and> m_Input hessianFilter' = m_Input hessianFilter))"
  by (simp add: HessianFilter_Update_def)

text \<open>The theorem at the scales 0 and -1, which fail, and at the scale 2, which succeeds.\<close>

theorem HessianFilter_Update_sigma_witness:
  "HessianFilter_Update (\<lambda>normalize sigma (grid::nat). sigma * real grid)
     \<lparr>m_NormalizeAcrossScale = True, m_Sigma = 0, m_Input = 7\<rparr> = Inl InvalidParameter
   \<and> HessianFilter_Update (\<lambda>normalize sigma (grid::nat). sigma * real grid)
     \<lparr>m_NormalizeAcrossScale = True, m_Sigma = - 1, m_Input = 7\<rparr> = Inl InvalidParameter
   \<and> (\<exists>hessianFilter' tensors.
        HessianFilter_Update (\<lambda>normalize sigma (grid::nat). sigma * real grid)
          \<lparr>m_NormalizeAcrossScale = True, m_Sigma = 2, m_Input = 7\<rparr>
          = Inr (hessianFilter', tensors)
        \<and> m_Input hessianFilter' = 7)"
proof -
  let ?D = "(\<lambda>normalize sigma (grid::nat). sigma * real grid) :: bool \<Rightarrow> real \<Rightarrow> nat \<Rightarrow> real"
  have "HessianFilter_Update ?D
          \<lparr>m_NormalizeAcrossScale = True, m_Sigma = 0, m_Input = 7\<rparr> = Inl InvalidParameter"
    using HessianFilter_Update_sigma[of
        "\<lparr>m_NormalizeAcrossScale = True, m_Sigma = 0, m_Input = 7\<rparr>" ?D] by simp
  moreover have "HessianFilter_Update ?D
          \<lparr>m_NormalizeAcrossScale = True, m_Sigma = - 1, m_Input = 7\<rparr> = Inl InvalidParameter"
    using HessianFilter_Update_sigma[of
        "\<lparr>m_NormalizeAcrossScale = True, m_Sigma = - 1, m_Input = 7\<rparr>" ?D] by simp
  moreover have "\<exists>hessianFilter' tensors.
        HessianFilter_Update ?D \<lparr>m_NormalizeAcrossScale = True, m_Sigma = 2, m_Input = 7\<rparr>
          = Inr (hessianFilter', tensors)
        \<and> m_Input hessianFilter' = 7"
    using HessianFilter_Update_sigma[of
        "\<lparr>m_NormalizeAcrossScale = True, m_Sigma = 2, m_Input = 7\<rparr>" ?D] by simp
  ultimately show ?thesis by blast
qed

text \<open>
  In the driver, whose \<open>generateResponseAtScale\<close> forwards the sigma of the level unchecked,
  the failure of the stage is the failure of the level.
\<close>

lemma generateResponseAtScale_InvalidParameter:
  assumes "m_HessianFilter this = HessianFilter_Update SecondDerivatives"
    and "m_SigmaArray this ! scaleLevel \<le> 0"
  shows "generateResponseAtScale this eigenToScalar order scaleLevel objects
           = Inl InvalidParameter"
  using assms by (simp add: generateResponseAtScale_def HessianFilter_Update_def)

text \<open>
  The response of a level is what the single-scale pipeline gives at the sigma of that
  level, written into the measure filter's output object, whatever that object held.
\<close>

lemma generateResponseAtScale_pipeline:
  assumes "ConvertType (GetEigenValueOrder eigenToScalar) = Inr order"
  shows "generateResponseAtScale this eigenToScalar order scaleLevel objects =
           (case single_scale_pipeline (m_HessianFilter this) (m_EigenAnalysisFilter this)
                   eigenToScalar (GetInput this) (m_SigmaArray this ! scaleLevel) of
              Inl e \<Rightarrow> Inl e
            | Inr response \<Rightarrow>
                Inr (EigenToScalarOutput, objects\<lparr>EigenToScalarOutputImage := response\<rparr>))"
  using assms
  by (simp add: generateResponseAtScale_def single_scale_pipeline_def
      split: sum.splits prod.splits)

lemma MaximumAbsoluteValueImageFilter_voxel:
  assumes "input1 index = Some a" and "input2 index = Some b"
  shows "MaximumAbsoluteValueImageFilter input1 input2 index
           = Some (if \<bar>a\<bar> \<ge> \<bar>b\<bar> then a else b)"
  using assms by (simp add: MaximumAbsoluteValueImageFilter_def MaximumAbsoluteValue_def)

lemma MaximumAbsoluteValueImageFilter_same:
  "MaximumAbsoluteValueImageFilter response response = response"
  by (rule ext)
     (simp add: MaximumAbsoluteValueImageFilter_def MaximumAbsoluteValue_def split: option.splits)

text \<open>
  One combination: the maximum-absolute-value filter's object then holds, at every voxel
  where the object of the running pointer holds \<open>a\<close> and the object of the response pointer
  holds \<open>b\<close> when the filter runs, the value \<open>a\<close> if \<open>\<bar>a\<bar> \<ge> \<bar>b\<bar>\<close> and \<open>b\<close> otherwise.
\<close>

lemma combine_step_voxel:
  assumes "m_MaximumAbsoluteValueFilter this = MaximumAbsoluteValueImageFilter"
    and "GetImage objects outputImageTypePointer index = Some a"
    and "GetImage objects tempResponseOutputImageTypePointer index = Some b"
  shows "combine_step this outputImageTypePointer tempResponseOutputImageTypePointer objects
           = (MaximumAbsoluteValueOutput, objects')
         \<Longrightarrow> GetImage objects' MaximumAbsoluteValueOutput index
               = Some (if \<bar>a\<bar> \<ge> \<bar>b\<bar> then a else b)"
  using assms
  by (auto simp: combine_step_def GetImage_def MaximumAbsoluteValueImageFilter_voxel)

text \<open>
  Two scales. The pointer kept from the first scale and the pointer returned at the second
  name the same object, the measure filter's output, which by then holds the second
  response: the filter combines the second response with itself, and the first response
  does not reach the output.
\<close>

lemma GenerateData_two_scales:
  assumes "m_EigenToScalarImageFilter this = Some eigenToScalar"
    and "m_SigmaArray this = [sigma0, sigma1]"
    and "single_scale_pipeline (m_HessianFilter this) (m_EigenAnalysisFilter this)
           eigenToScalar (GetInput this) sigma0 = Inr first"
    and "single_scale_pipeline (m_HessianFilter this) (m_EigenAnalysisFilter this)
           eigenToScalar (GetInput this) sigma1 = Inr second"
  shows "GenerateData this = Inr (m_MaximumAbsoluteValueFilter this second second)"
proof -
  obtain order where order: "ConvertType (GetEigenValueOrder eigenToScalar) = Inr order"
    using assms(3) by (auto simp: single_scale_pipeline_def split: sum.splits)
  note level = generateResponseAtScale_pipeline[OF order, of this]
  have "scale_loop this eigenToScalar order 1 EigenToScalarOutput
          (NewOutputObjects\<lparr>EigenToScalarOutputImage := first\<rparr>)
        = Inr (m_MaximumAbsoluteValueFilter this second second)"
    using assms(2,4)
    by (simp add: scale_loop.simps[of _ _ _ "Suc 0"] scale_loop.simps[of _ _ _ "Suc (Suc 0)"]
        level combine_step_def GetImage_def)
  then show ?thesis
    using assms(1,2,3) order by (simp add: GenerateData_def level)
qed

text \<open>
  Three scales: the output is the combination of the second response (combined with
  itself) as input 1 with the third response as input 2.
\<close>

lemma GenerateData_three_scales:
  assumes "m_EigenToScalarImageFilter this = Some eigenToScalar"
    and "m_SigmaArray this = [sigma0, sigma1, sigma2]"
    and "single_scale_pipeline (m_HessianFilter this) (m_EigenAnalysisFilter this)
           eigenToScalar (GetInput this) sigma0 = Inr first"
    and "single_scale_pipeline (m_HessianFilter this) (m_EigenAnalysisFilter this)
           eigenToScalar (GetInput this) sigma1 = Inr second"
    and "single_scale_pipeline (m_HessianFilter this) (m_EigenAnalysisFilter this)
           eigenToScalar (GetInput this) sigma2 = Inr third"
  shows "GenerateData this =
           Inr (m_MaximumAbsoluteValueFilter this
                  (m_MaximumAbsoluteValueFilter this second second) third)"
proof -
  obtain order where order: "ConvertType (GetEigenValueOrder eigenToScalar) = Inr order"
    using assms(3) by (auto simp: single_scale_pipeline_def split: sum.splits)
  note level = generateResponseAtScale_pipeline[OF order, of this]
  have "scale_loop this eigenToScalar order 1 EigenToScalarOutput
          (NewOutputObjects\<lparr>EigenToScalarOutputImage := first\<rparr>)
        = Inr (m_MaximumAbsoluteValueFilter this
                 (m_MaximumAbsoluteValueFilter this second second) third)"
    using assms(2,4,5)
    by (simp add: scale_loop.simps[of _ _ _ "Suc 0"] scale_loop.simps[of _ _ _ "Suc (Suc 0)"]
        scale_loop.simps[of _ _ _ "Suc (Suc (Suc 0))"] level combine_step_def GetImage_def)
  then show ?thesis
    using assms(1,2,3) order by (simp add: GenerateData_def level)
qed

text \<open>
  C2 does not hold of the driver. The claim: when the response of a later scale is combined
  with the running best image, every voxel of the result holds whichever of the running
  value \<open>a\<close> and the candidate value \<open>b\<close> has the larger absolute value, \<open>a\<close> on a tie. On
  two scales, with the responses (5, 2) at the first and (1, -2) at the second on two
  voxels, the running best image is the first response and the rule gives (5, 2); the driver
  returns (1, -2), the second response: at the combination the running pointer names the
  object that the second update has overwritten.
\<close>

theorem GenerateData_two_scales_returns_second_response:
  "GenerateData
     ((MultiScale_New (\<lambda>normalize sigma (grid::nat). sigma)
         (\<lambda>order (tensors::real). Inr tensors :: error + real) 0)
        \<lparr>m_SigmaArray := [1, 2],
         m_EigenToScalarImageFilter :=
           Some \<lparr>GetEigenValueOrder = OrderByMagnitude,
                 EigenToScalar_Update =
                   (\<lambda>eigenValues. Inr (if eigenValues = 1
                                         then [(0, 0, 0) \<mapsto> 5, (1, 0, 0) \<mapsto> 2]
                                         else [(0, 0, 0) \<mapsto> 1, (1, 0, 0) \<mapsto> - 2]))\<rparr>\<rparr>)
     = Inr [(0, 0, 0) \<mapsto> 1, (1, 0, 0) \<mapsto> - 2]
   \<and> MaximumAbsoluteValueImageFilter [(0, 0, 0) \<mapsto> 5, (1, 0, 0) \<mapsto> 2]
         [(0, 0, 0) \<mapsto> 1, (1, 0, 0) \<mapsto> - 2] (0, 0, 0) = Some 5
   \<and> MaximumAbsoluteValueImageFilter [(0, 0, 0) \<mapsto> 5, (1, 0, 0) \<mapsto> 2]
         [(0, 0, 0) \<mapsto> 1, (1, 0, 0) \<mapsto> - 2] (1, 0, 0) = Some 2"
proof -
  let ?first = "[(0, 0, 0) \<mapsto> 5, (1, 0, 0) \<mapsto> 2] :: OutputImageType"
  let ?second = "[(0, 0, 0) \<mapsto> 1, (1, 0, 0) \<mapsto> - 2] :: OutputImageType"
  let ?f = "\<lparr>GetEigenValueOrder = OrderByMagnitude,
             EigenToScalar_Update =
               (\<lambda>eigenValues. Inr (if eigenValues = 1 then ?first else ?second))\<rparr>
            :: real EigenToScalarImageFilterType"
  let ?driver = "(MultiScale_New (\<lambda>normalize sigma (grid::nat). sigma)
                   (\<lambda>order (tensors::real). Inr tensors :: error + real) 0)
                 \<lparr>m_SigmaArray := [1, 2], m_EigenToScalarImageFilter := Some ?f\<rparr>
                 :: (nat, real, real) MultiScaleHessianEnhancementImageFilter"
  have p1: "single_scale_pipeline (m_HessianFilter ?driver) (m_EigenAnalysisFilter ?driver)
              ?f (GetInput ?driver) 1 = Inr ?first"
    by (simp add: single_scale_pipeline_def ConvertType_def MultiScale_New_def
        HessianFilter_Update_def)
  have p2: "single_scale_pipeline (m_HessianFilter ?driver) (m_EigenAnalysisFilter ?driver)
              ?f (GetInput ?driver) 2 = Inr ?second"
    by (simp add: single_scale_pipeline_def ConvertType_def MultiScale_New_def
        HessianFilter_Update_def)
  have "GenerateData ?driver = Inr (m_MaximumAbsoluteValueFilter ?driver ?second ?second)"
    by (rule GenerateData_two_scales[OF _ _ p1 p2]) simp_all
  then have "GenerateData ?driver = Inr ?second"
    by (simp add: MultiScale_New_def MaximumAbsoluteValueImageFilter_same)
  moreover have "MaximumAbsoluteValueImageFilter ?first ?second (0, 0, 0) = Some 5"
    by (simp add: MaximumAbsoluteValueImageFilter_def MaximumAbsoluteValue_def)
  moreover have "MaximumAbsoluteValueImageFilter ?first ?second (1, 0, 0) = Some 2"
    by (simp add: MaximumAbsoluteValueImageFilter_def MaximumAbsoluteValue_def)
  ultimately show ?thesis by blast
qed

text \<open>
  On three scales, with the responses (5, 7), then (2, 1), then (-2, -3): the first response
  is lost as before, and the third is combined with the second as the rule says, the running
  value first: the tie of 2 against -2 keeps 2, and -3 replaces 1.
\<close>

lemma GenerateData_three_scales_example:
  "\<exists>outputImage.
     GenerateData
       ((MultiScale_New (\<lambda>normalize sigma (grid::nat). sigma)
           (\<lambda>order (tensors::real). Inr tensors :: error + real) 0)
          \<lparr>m_SigmaArray := [1, 2, 3],
           m_EigenToScalarImageFilter :=
             Some \<lparr>GetEigenValueOrder = OrderByMagnitude,
                   EigenToScalar_Update =
                     (\<lambda>eigenValues. Inr (if eigenValues = 1
                                           then [(0, 0, 0) \<mapsto> 5, (1, 0, 0) \<mapsto> 7]
                                           else if eigenValues = 2
                                           then [(0, 0, 0) \<mapsto> 2, (1, 0, 0) \<mapsto> 1]
                                           else [(0, 0, 0) \<mapsto> - 2, (1, 0, 0) \<mapsto> - 3]))\<rparr>\<rparr>)
       = Inr outputImage
     \<and> outputImage (0, 0, 0) = Some 2 \<and> outputImage (1, 0, 0) = Some (- 3)"
proof -
  let ?first = "[(0, 0, 0) \<mapsto> 5, (1, 0, 0) \<mapsto> 7] :: OutputImageType"
  let ?second = "[(0, 0, 0) \<mapsto> 2, (1, 0, 0) \<mapsto> 1] :: OutputImageType"
  let ?third = "[(0, 0, 0) \<mapsto> - 2, (1, 0, 0) \<mapsto> - 3] :: OutputImageType"
  let ?f = "\<lparr>GetEigenValueOrder = OrderByMagnitude,
             EigenToScalar_Update =
               (\<lambda>eigenValues. Inr (if eigenValues = 1 then ?first
                                     else if eigenValues = 2 then ?second else ?third))\<rparr>
            :: real EigenToScalarImageFilterType"
  let ?driver = "(MultiScale_New (\<lambda>normalize sigma (grid::nat). sigma)
                   (\<lambda>order (tensors::real). Inr tensors :: error + real) 0)
                 \<lparr>m_SigmaArray := [1, 2, 3], m_EigenToScalarImageFilter := Some ?f\<rparr>
                 :: (nat, real, real) MultiScaleHessianEnhancementImageFilter"
  let ?out = "MaximumAbsoluteValueImageFilter ?second ?third"
  have p1: "single_scale_pipeline (m_HessianFilter ?driver) (m_EigenAnalysisFilter ?driver)
              ?f (GetInput ?driver) 1 = Inr ?first"
    by (simp add: single_scale_pipeline_def ConvertType_def MultiScale_New_def
        HessianFilter_Update_def)
  have p2: "single_scale_pipeline (m_HessianFilter ?driver) (m_EigenAnalysisFilter ?driver)
              ?f (GetInput ?driver) 2 = Inr ?second"
    by (simp add: single_scale_pipeline_def ConvertType_def MultiScale_New_def
        HessianFilter_Update_def)
  have p3: "single_scale_pipeline (m_HessianFilter ?driver) (m_EigenAnalysisFilter ?driver)
              ?f (GetInput ?driver) 3 = Inr ?third"
    by (simp add: single_scale_pipeline_def ConvertType_def MultiScale_New_def
        HessianFilter_Update_def)
  have "GenerateData ?driver =
          Inr (m_MaximumAbsoluteValueFilter ?driver
                 (m_MaximumAbsoluteValueFilter ?driver ?second ?second) ?third)"
    by (rule GenerateData_three_scales[OF _ _ p1 p2 p3]) simp_all
  then have "GenerateData ?driver = Inr ?out"
    by (simp add: MultiScale_New_def MaximumAbsoluteValueImageFilter_same)
  moreover have "?out (0, 0, 0) = Some 2" and "?out (1, 0, 0) = Some (- 3)"
    by (simp_all add: MaximumAbsoluteValueImageFilter_def MaximumAbsoluteValue_def)
  ultimately show ?thesis by blast
qed

end
